theory Spec2Isabelle
  imports Complex_Main
begin

section \<open>Python values and exceptions\<close>

text \<open>
  The exceptions the modelled code can meet. All of them are subclasses of Python's
  \<open>Exception\<close>, so an \<open>except Exception\<close> clause catches every one of them.
  \<open>InvalidTrajectoryError\<close> is the name the specification gives to the failure of
  the trajectory evaluation.
\<close>

datatype py_error =
    FileNotFoundError
  | PermissionError
  | PlyParseError
  | KeyError
  | ValueError
  | IndexError
  | OverflowError
  | AttributeError
  | InvalidTrajectoryError

text \<open>
  The values that can be passed as keyword arguments to \<open>set_trajectory\<close>. Python does
  not check the annotated types, so any value can arrive under any key.
\<close>

datatype pyval =
    PNone
  | PBool bool
  | PInt int
  | PFloat real
  | PStr string
  | PTuple "pyval list"
  | PList "pyval list"
  | PDict "(string \<times> pyval) list"

text \<open>Python's truth value of an object, as used by \<open>look_at or center\<close>.\<close>

fun truthy :: "pyval \<Rightarrow> bool" where
  "truthy PNone = False"
| "truthy (PBool b) = b"
| "truthy (PInt i) = (i \<noteq> 0)"
| "truthy (PFloat x) = (x \<noteq> 0)"
| "truthy (PStr s) = (s \<noteq> [])"
| "truthy (PTuple vs) = (vs \<noteq> [])"
| "truthy (PList vs) = (vs \<noteq> [])"
| "truthy (PDict kvs) = (kvs \<noteq> [])"

text \<open>\<open>a or b\<close>: the first operand when it is true, the second otherwise.\<close>

definition py_or :: "pyval \<Rightarrow> pyval \<Rightarrow> pyval" where
  "py_or a b = (if truthy a then a else b)"

section \<open>camera\_trajectory.py: class CameraTrajectory\<close>

text \<open>
  The two attributes of the object that the methods read and write (the logger is not
  used by any method). \<open>trajectory_type\<close> is \<open>None\<close> after \<open>__init__\<close>, and
  \<open>trajectory_params\<close> is the empty dictionary.
\<close>

record camera_trajectory =
  trajectory_type :: "string option"
  trajectory_params :: "string \<rightharpoonup> pyval"

definition init_trajectory :: camera_trajectory where
  "init_trajectory = \<lparr>trajectory_type = None, trajectory_params = Map.empty\<rparr>"

text \<open>
  A keyword parameter with a default: the value passed under the name when there is
  one, the default otherwise. Keys of \<open>**kwargs\<close> that no parameter names are bound
  to the callee's own \<open>**kwargs\<close> and never read.
\<close>

definition kwarg :: "(string \<rightharpoonup> pyval) \<Rightarrow> string \<Rightarrow> pyval \<Rightarrow> pyval" where
  "kwarg kwargs name dflt = (case kwargs name of None \<Rightarrow> dflt | Some v \<Rightarrow> v)"

text \<open>\<open>d.update({k1: v1, ...})\<close>: the pairs are stored from left to right.\<close>

fun dict_update :: "(string \<rightharpoonup> pyval) \<Rightarrow> (string \<times> pyval) list \<Rightarrow> (string \<rightharpoonup> pyval)" where
  "dict_update d [] = d"
| "dict_update d ((k, v) # kvs) = dict_update (d(k \<mapsto> v)) kvs"

definition setup_linear_trajectory ::
  "camera_trajectory \<Rightarrow> (string \<rightharpoonup> pyval) \<Rightarrow> camera_trajectory" where
  "setup_linear_trajectory self kwargs =
     (let start_pos = kwarg kwargs ''start_pos'' (PTuple [PInt 0, PInt 0, PInt 5]);
          end_pos = kwarg kwargs ''end_pos'' (PTuple [PInt 5, PInt 0, PInt 5]);
          look_at = kwarg kwargs ''look_at'' PNone;
          fixed_rotation = kwarg kwargs ''fixed_rotation'' PNone
      in self\<lparr>trajectory_params := dict_update (trajectory_params self)
            [(''start_pos'', start_pos),
             (''end_pos'', end_pos),
             (''look_at'', look_at),
             (''fixed_rotation'', fixed_rotation)]\<rparr>)"

definition setup_circular_trajectory ::
  "camera_trajectory \<Rightarrow> (string \<rightharpoonup> pyval) \<Rightarrow> camera_trajectory" where
  "setup_circular_trajectory self kwargs =
     (let center = kwarg kwargs ''center'' (PTuple [PInt 0, PInt 0, PInt 0]);
          radius = kwarg kwargs ''radius'' (PFloat 5);
          height = kwarg kwargs ''height'' (PFloat 2);
          start_angle = kwarg kwargs ''start_angle'' (PFloat 0);
          end_angle = kwarg kwargs ''end_angle'' (PFloat (2 * pi));
          look_at = kwarg kwargs ''look_at'' PNone
      in self\<lparr>trajectory_params := dict_update (trajectory_params self)
            [(''center'', center),
             (''radius'', radius),
             (''height'', height),
             (''start_angle'', start_angle),
             (''end_angle'', end_angle),
             (''look_at'', py_or look_at center)]\<rparr>)"

definition setup_custom_trajectory ::
  "camera_trajectory \<Rightarrow> (string \<rightharpoonup> pyval) \<Rightarrow> camera_trajectory" where
  "setup_custom_trajectory self kwargs =
     (let keyframes0 = kwarg kwargs ''keyframes'' PNone;
          keyframes = (if keyframes0 = PNone then PList [] else keyframes0)
      in self\<lparr>trajectory_params := dict_update (trajectory_params self)
            [(''keyframes'', keyframes)]\<rparr>)"

text \<open>
  \<open>set_trajectory\<close> returns nothing; the model returns the exception raised, if any,
  together with the object as the call leaves it. The assignment to
  \<open>self.trajectory_type\<close> is the first statement, before the dispatch on the name.
\<close>

definition set_trajectory ::
  "camera_trajectory \<Rightarrow> string \<Rightarrow> (string \<rightharpoonup> pyval) \<Rightarrow> py_error option \<times> camera_trajectory" where
  "set_trajectory self ttype kwargs =
     (let self1 = self\<lparr>trajectory_type := Some ttype\<rparr>
      in if ttype = ''linear'' then (None, setup_linear_trajectory self1 kwargs)
         else if ttype = ''circular'' then (None, setup_circular_trajectory self1 kwargs)
         else if ttype = ''custom'' then (None, setup_custom_trajectory self1 kwargs)
         else (Some ValueError, self1))"

text \<open>The dictionary \<open>get_info\<close> returns, with its two keys as fields.\<close>

record trajectory_info =
  info_type :: "string option"
  info_parameters :: "string \<rightharpoonup> pyval"

definition get_info :: "camera_trajectory \<Rightarrow> trajectory_info" where
  "get_info self = \<lparr>info_type = trajectory_type self, info_parameters = trajectory_params self\<rparr>"

text \<open>
  The three names \<open>set_trajectory\<close> dispatches on, and the keys each private setup
  method stores: the parameters of that variant.
\<close>

definition known_types :: "string set" where
  "known_types = {''linear'', ''circular'', ''custom''}"

definition variant_keys :: "string \<Rightarrow> string set" where
  "variant_keys ttype =
     (if ttype = ''linear'' then {''start_pos'', ''end_pos'', ''look_at'', ''fixed_rotation''}
      else if ttype = ''circular'' then
        {''center'', ''radius'', ''height'', ''start_angle'', ''end_angle'', ''look_at''}
      else if ttype = ''custom'' then {''keyframes''}
      else {})"

subsection \<open>euler\_to\_rotation\_matrix\<close>

text \<open>
  A 3x3 array as its three rows. The entries are modelled as real numbers: the
  rounding of the 64-bit floating point arithmetic is not part of the model.
\<close>

type_synonym row3 = "real \<times> real \<times> real"
type_synonym mat3 = "row3 \<times> row3 \<times> row3"

text \<open>The operator \<open>@\<close> on two 3x3 arrays: the matrix product.\<close>

definition dot3 :: "row3 \<Rightarrow> row3 \<Rightarrow> real" where
  "dot3 u v = (case u of (a, b, c) \<Rightarrow> case v of (x, y, z) \<Rightarrow> a * x + b * y + c * z)"

definition col3 :: "mat3 \<Rightarrow> nat \<Rightarrow> row3" where
  "col3 m j = (case m of ((a0, a1, a2), (b0, b1, b2), (c0, c1, c2)) \<Rightarrow>
     if j = 0 then (a0, b0, c0) else if j = 1 then (a1, b1, c1) else (a2, b2, c2))"

definition matmul :: "mat3 \<Rightarrow> mat3 \<Rightarrow> mat3" where
  "matmul A B = (case A of (r0, r1, r2) \<Rightarrow>
     ((dot3 r0 (col3 B 0), dot3 r0 (col3 B 1), dot3 r0 (col3 B 2)),
      (dot3 r1 (col3 B 0), dot3 r1 (col3 B 1), dot3 r1 (col3 B 2)),
      (dot3 r2 (col3 B 0), dot3 r2 (col3 B 1), dot3 r2 (col3 B 2))))"

definition euler_to_rotation_matrix :: "real \<times> real \<times> real \<Rightarrow> mat3" where
  "euler_to_rotation_matrix euler_angles =
     (case euler_angles of (pitch, yaw, roll) \<Rightarrow>
        let Rx = ((1, 0, 0),
                  (0, cos pitch, - sin pitch),
                  (0, sin pitch, cos pitch));
            Ry = ((cos yaw, 0, sin yaw),
                  (0, 1, 0),
                  (- sin yaw, 0, cos yaw));
            Rz = ((cos roll, - sin roll, 0),
                  (sin roll, cos roll, 0),
                  (0, 0, 1))
        in matmul (matmul Rz Ry) Rx)"

text \<open>
  The standard right-handed rotations about the three axes, as the specification
  names them, and the product of three matrices written entry by entry.
\<close>

definition rot_x :: "real \<Rightarrow> mat3" where
  "rot_x a = ((1, 0, 0), (0, cos a, - sin a), (0, sin a, cos a))"

definition rot_y :: "real \<Rightarrow> mat3" where
  "rot_y a = ((cos a, 0, sin a), (0, 1, 0), (- sin a, 0, cos a))"

definition rot_z :: "real \<Rightarrow> mat3" where
  "rot_z a = ((cos a, - sin a, 0), (sin a, cos a, 0), (0, 0, 1))"

definition mat_entry :: "mat3 \<Rightarrow> nat \<Rightarrow> nat \<Rightarrow> real" where
  "mat_entry m i j =
     (case col3 m j of (x, y, z) \<Rightarrow> if i = 0 then x else if i = 1 then y else z)"

definition mat_of_entries :: "(nat \<Rightarrow> nat \<Rightarrow> real) \<Rightarrow> mat3" where
  "mat_of_entries f = ((f 0 0, f 0 1, f 0 2), (f 1 0, f 1 1, f 1 2), (f 2 0, f 2 1, f 2 2))"

definition spec_rotation :: "real \<Rightarrow> real \<Rightarrow> real \<Rightarrow> mat3" where
  "spec_rotation pitch yaw roll =
     mat_of_entries (\<lambda>i j. \<Sum>k<3. \<Sum>l<3.
        mat_entry (rot_z roll) i k * mat_entry (rot_y yaw) k l * mat_entry (rot_x pitch) l j)"

section \<open>Exceptions and logging\<close>

text \<open>
  A computation that may raise: \<open>Inl\<close> carries the exception, \<open>Inr\<close> the value.
  \<open>ebind\<close> runs the next statement only when the one before it did not raise.
\<close>

definition ebind :: "py_error + 'a \<Rightarrow> ('a \<Rightarrow> py_error + 'b) \<Rightarrow> py_error + 'b" where
  "ebind m f = (case m of Inl e \<Rightarrow> Inl e | Inr v \<Rightarrow> f v)"

text \<open>
  One call of \<open>self.logger.error\<close>: the fixed text of the message, the path and the
  exception formatted into it.
\<close>

datatype log_record = LogError string string py_error

section \<open>The numpy arrays the loaders return\<close>

datatype dtype = Int8 | UInt8 | Int16 | UInt16 | Int32 | UInt32 | Int64 | Float32 | Float64

text \<open>
  An array is its element type and its elements: numbers for a column, rows of numbers
  for a two-dimensional array. The numbers are modelled as reals; what the element
  type does to their precision is not part of the model, the type itself is.
\<close>

record 'a ndarray =
  dtype :: dtype
  elems :: "'a list"

fun is_float :: "dtype \<Rightarrow> bool" where
  "is_float Float32 = True"
| "is_float Float64 = True"
| "is_float _ = False"

fun is_signed :: "dtype \<Rightarrow> bool" where
  "is_signed UInt8 = False"
| "is_signed UInt16 = False"
| "is_signed UInt32 = False"
| "is_signed _ = True"

fun bits :: "dtype \<Rightarrow> nat" where
  "bits Int8 = 8"
| "bits UInt8 = 8"
| "bits Int16 = 16"
| "bits UInt16 = 16"
| "bits Int32 = 32"
| "bits UInt32 = 32"
| "bits Int64 = 64"
| "bits Float32 = 32"
| "bits Float64 = 64"

definition signed_of_bits :: "nat \<Rightarrow> dtype" where
  "signed_of_bits n = (if n \<le> 8 then Int8 else if n \<le> 16 then Int16
                       else if n \<le> 32 then Int32 else Int64)"

text \<open>
  numpy's type promotion on the scalar types a PLY file can declare (and \<open>int64\<close>, which
  the promotion of \<open>uint32\<close> with a signed type produces): the type of an array built
  from columns of these types.
\<close>

definition promote_types :: "dtype \<Rightarrow> dtype \<Rightarrow> dtype" where
  "promote_types a b =
     (if a = b then a
      else if is_float a \<or> is_float b then
        (if a = Float64 \<or> b = Float64 then Float64
         else if bits (if is_float a then b else a) \<le> 16 then Float32 else Float64)
      else if is_signed a = is_signed b then (if bits b \<le> bits a then a else b)
      else (let s = (if is_signed a then a else b); u = (if is_signed a then b else a)
            in if bits u < bits s then s else signed_of_bits (2 * bits u)))"

text \<open>
  \<open>np.column_stack\<close> of three one-dimensional arrays: row \<open>i\<close> holds the three
  \<open>i\<close>-th elements. Columns of different lengths raise \<open>ValueError\<close>.
\<close>

definition column_stack :: "real ndarray \<Rightarrow> real ndarray \<Rightarrow> real ndarray \<Rightarrow> py_error + real list ndarray" where
  "column_stack a b c =
     (if length (elems a) = length (elems b) \<and> length (elems b) = length (elems c)
      then Inr \<lparr>dtype = promote_types (promote_types (dtype a) (dtype b)) (dtype c),
                elems = map (\<lambda>(x, y, z). [x, y, z]) (zip (elems a) (zip (elems b) (elems c)))\<rparr>
      else Inl ValueError)"

text \<open>
  \<open>max\<close>, \<open>min\<close> and \<open>mean\<close> of an array, over all its elements. \<open>max\<close> and \<open>min\<close> of an
  array without elements raise \<open>ValueError\<close>.
\<close>

definition amax :: "real list \<Rightarrow> py_error + real" where
  "amax xs = (case xs of [] \<Rightarrow> Inl ValueError | x # rest \<Rightarrow> Inr (fold max rest x))"

definition amin :: "real list \<Rightarrow> py_error + real" where
  "amin xs = (case xs of [] \<Rightarrow> Inl ValueError | x # rest \<Rightarrow> Inr (fold min rest x))"

definition mean :: "real list \<Rightarrow> real" where
  "mean xs = sum_list xs / real (length xs)"

text \<open>\<open>colors.astype(np.float32) / 255.0\<close>: a \<open>float32\<close> array, every element divided.\<close>

definition astype :: "dtype \<Rightarrow> 'a ndarray \<Rightarrow> 'a ndarray" where
  "astype t a = a\<lparr>dtype := t\<rparr>"

definition divide_by :: "real list ndarray \<Rightarrow> real \<Rightarrow> real list ndarray" where
  "divide_by a d = a\<lparr>elems := map (map (\<lambda>v. v / d)) (elems a)\<rparr>"

section \<open>ply\_processor.py: class PLYProcessor\<close>

text \<open>
  What \<open>PlyData.read\<close> of the \<open>plyfile\<close> library returns: the elements of the file by
  name, each with its number of records and, for each declared property in the order
  of the header, the column of its values. The library is not part of the repository:
  the functions below take its \<open>read\<close>, from a path to the data or the exception it
  raises, as a parameter.
\<close>

record ply_element =
  count :: nat
  properties :: "(string \<times> real ndarray) list"

type_synonym ply_data = "(string \<times> ply_element) list"

text \<open>
  Subscription by name: \<open>plydata['vertex']\<close> raises \<open>KeyError\<close> for an element the file
  does not have, \<open>vertices['x']\<close> raises \<open>ValueError\<close> for a property it does not have.
\<close>

definition getitem :: "(string \<times> 'a) list \<Rightarrow> string \<Rightarrow> py_error \<Rightarrow> py_error + 'a" where
  "getitem kvs k err = (case map_of kvs k of None \<Rightarrow> Inl err | Some v \<Rightarrow> Inr v)"

text \<open>The body of the \<open>try\<close> block of \<open>load_ply\<close>.\<close>

definition load_ply_try ::
  "(string \<Rightarrow> py_error + ply_data) \<Rightarrow> string \<Rightarrow>
     py_error + (real list ndarray \<times> real list ndarray option)" where
  "load_ply_try read file_path =
     ebind (read file_path) (\<lambda>plydata.
     ebind (getitem plydata ''vertex'' KeyError) (\<lambda>vertices.
     ebind (getitem (properties vertices) ''x'' ValueError) (\<lambda>x.
     ebind (getitem (properties vertices) ''y'' ValueError) (\<lambda>y.
     ebind (getitem (properties vertices) ''z'' ValueError) (\<lambda>z.
     ebind (column_stack x y z) (\<lambda>points.
     let property_names = map fst (properties vertices)
     in if ''red'' \<in> set property_names \<and> ''green'' \<in> set property_names
             \<and> ''blue'' \<in> set property_names
        then
          ebind (getitem (properties vertices) ''red'' ValueError) (\<lambda>red.
          ebind (getitem (properties vertices) ''green'' ValueError) (\<lambda>green.
          ebind (getitem (properties vertices) ''blue'' ValueError) (\<lambda>blue.
          ebind (column_stack red green blue) (\<lambda>colors.
          ebind (amax (concat (elems colors))) (\<lambda>m.
          if 1 < m then Inr (points, Some (divide_by (astype Float32 colors) 255))
          else Inr (points, Some colors))))))
        else Inr (points, None)))))))"

text \<open>
  \<open>load_ply\<close>: the \<open>except Exception\<close> clause logs and returns \<open>(None, None)\<close>. The result
  is what the call wrote to the log and how it ended.
\<close>

definition load_ply ::
  "(string \<Rightarrow> py_error + ply_data) \<Rightarrow> string \<Rightarrow>
     log_record list \<times> (py_error + (real list ndarray option \<times> real list ndarray option))" where
  "load_ply read file_path =
     (case load_ply_try read file_path of
        Inr (points, colors) \<Rightarrow> ([], Inr (Some points, colors))
      | Inl e \<Rightarrow> ([LogError ''Error loading PLY file '' file_path e], Inr (None, None)))"

text \<open>The dictionary \<open>get_ply_info\<close> returns, with its keys as fields.\<close>

record ply_info =
  file_path :: string
  file_size :: nat
  point_count :: nat
  info_has_colors :: bool
  has_alpha :: bool
  info_properties :: "string list"
  bounds :: "(string \<times> real) list"

text \<open>
  The body of the \<open>try\<close> block of \<open>get_ply_info\<close>. \<open>stat_size\<close> stands for
  \<open>file_path.stat().st_size\<close>, a call to the operating system that can raise.
\<close>

definition get_ply_info_try ::
  "(string \<Rightarrow> py_error + ply_data) \<Rightarrow> (string \<Rightarrow> py_error + nat) \<Rightarrow> string \<Rightarrow>
     py_error + ply_info" where
  "get_ply_info_try read stat_size path =
     ebind (read path) (\<lambda>plydata.
     ebind (getitem plydata ''vertex'' KeyError) (\<lambda>vertices.
     let property_names = map fst (properties vertices)
     in
     ebind (getitem (properties vertices) ''x'' ValueError) (\<lambda>x_coords.
     ebind (getitem (properties vertices) ''y'' ValueError) (\<lambda>y_coords.
     ebind (getitem (properties vertices) ''z'' ValueError) (\<lambda>z_coords.
     ebind (amin (elems x_coords)) (\<lambda>min_x.
     ebind (amax (elems x_coords)) (\<lambda>max_x.
     ebind (amin (elems y_coords)) (\<lambda>min_y.
     ebind (amax (elems y_coords)) (\<lambda>max_y.
     ebind (amin (elems z_coords)) (\<lambda>min_z.
     ebind (amax (elems z_coords)) (\<lambda>max_z.
     let bounds = [(''min_x'', min_x), (''max_x'', max_x),
                   (''min_y'', min_y), (''max_y'', max_y),
                   (''min_z'', min_z), (''max_z'', max_z),
                   (''center_x'', mean (elems x_coords)),
                   (''center_y'', mean (elems y_coords)),
                   (''center_z'', mean (elems z_coords))]
     in
     ebind (stat_size path) (\<lambda>size.
     Inr \<lparr>file_path = path,
          file_size = size,
          point_count = count vertices,
          info_has_colors = (''red'' \<in> set property_names \<and> ''green'' \<in> set property_names
                             \<and> ''blue'' \<in> set property_names),
          has_alpha = (''alpha'' \<in> set property_names),
          info_properties = property_names,
          bounds = bounds\<rparr>))))))))))))"

definition empty_info :: "string \<Rightarrow> ply_info" where
  "empty_info path =
     \<lparr>file_path = path, file_size = 0, point_count = 0, info_has_colors = False,
      has_alpha = False, info_properties = [], bounds = []\<rparr>"

definition get_ply_info ::
  "(string \<Rightarrow> py_error + ply_data) \<Rightarrow> (string \<Rightarrow> py_error + nat) \<Rightarrow> string \<Rightarrow>
     log_record list \<times> (py_error + ply_info)" where
  "get_ply_info read stat_size path =
     (case get_ply_info_try read stat_size path of
        Inr info \<Rightarrow> ([], Inr info)
      | Inl e \<Rightarrow> ([LogError ''Error getting PLY info for '' path e], Inr (empty_info path)))"

text \<open>
  The bounds of a position array, computed from its three columns: what the
  specification compares the bounds of \<open>get_ply_info\<close> with.
\<close>

definition column :: "nat \<Rightarrow> real list ndarray \<Rightarrow> real list" where
  "column j a = map (\<lambda>row. row ! j) (elems a)"

definition bounds_of_points :: "real list ndarray \<Rightarrow> py_error + (string \<times> real) list" where
  "bounds_of_points pts =
     ebind (amin (column 0 pts)) (\<lambda>min_x.
     ebind (amax (column 0 pts)) (\<lambda>max_x.
     ebind (amin (column 1 pts)) (\<lambda>min_y.
     ebind (amax (column 1 pts)) (\<lambda>max_y.
     ebind (amin (column 2 pts)) (\<lambda>min_z.
     ebind (amax (column 2 pts)) (\<lambda>max_z.
     Inr [(''min_x'', min_x), (''max_x'', max_x),
          (''min_y'', min_y), (''max_y'', max_y),
          (''min_z'', min_z), (''max_z'', max_z),
          (''center_x'', mean (column 0 pts)),
          (''center_y'', mean (column 1 pts)),
          (''center_z'', mean (column 2 pts))]))))))"

section \<open>render\_full\_video.py: load\_ply\_file\<close>

subsection \<open>The string methods the loader uses\<close>

text \<open>
  The file is read as text. Its lines are modelled as strings of one-byte characters,
  and the whitespace of \<open>str.strip()\<close> and \<open>str.split()\<close> as the whitespace among
  them: tab, line feed, vertical tab, form feed, carriage return, the four separators
  \<open>0x1C\<close> to \<open>0x1F\<close> and the space.
\<close>

definition is_space :: "char \<Rightarrow> bool" where
  "is_space c = (c \<in> set [CHR 0x09, CHR 0x0A, CHR 0x0B, CHR 0x0C, CHR 0x0D,
                           CHR 0x1C, CHR 0x1D, CHR 0x1E, CHR 0x1F, CHR 0x20])"

definition strip :: "string \<Rightarrow> string" where
  "strip s = rev (dropWhile is_space (rev (dropWhile is_space s)))"

text \<open>
  \<open>s.split()\<close>: the maximal runs of characters that are not whitespace. \<open>tok\<close> is the
  run being read.
\<close>

fun split_from :: "string \<Rightarrow> string \<Rightarrow> string list" where
  "split_from tok [] = (if tok = [] then [] else [tok])"
| "split_from tok (c # cs) =
     (if is_space c then (if tok = [] then split_from [] cs else tok # split_from [] cs)
      else split_from (tok @ [c]) cs)"

definition split :: "string \<Rightarrow> string list" where
  "split s = split_from [] s"

definition startswith :: "string \<Rightarrow> string \<Rightarrow> bool" where
  "startswith s p = (take (length p) s = p)"

subsection \<open>The header\<close>

text \<open>The three variables the first loop sets.\<close>

record ply_header =
  header_end :: nat
  vertex_count :: int
  has_colors :: bool

definition initial_header :: ply_header where
  "initial_header = \<lparr>header_end = 0, vertex_count = 0, has_colors = False\<rparr>"

text \<open>
  The first loop, \<open>for i, line in enumerate(lines)\<close>, from line \<open>i\<close> on. Python's
  \<open>int\<close> is a parameter, \<open>py_int\<close>: \<open>None\<close> where it raises \<open>ValueError\<close>. The subscript
  \<open>[-1]\<close> raises \<open>IndexError\<close> on an empty list.
\<close>

fun scan_header ::
  "(string \<Rightarrow> int option) \<Rightarrow> nat \<Rightarrow> string list \<Rightarrow> ply_header \<Rightarrow> py_error + ply_header" where
  "scan_header py_int i [] h = Inr h"
| "scan_header py_int i (l # ls) h =
     (let line = strip l
      in if startswith line ''element vertex'' then
           (case split line of
              [] \<Rightarrow> Inl IndexError
            | p # ps \<Rightarrow>
               (case py_int (last (p # ps)) of
                  None \<Rightarrow> Inl ValueError
                | Some n \<Rightarrow> scan_header py_int (i + 1) ls (h\<lparr>vertex_count := n\<rparr>)))
         else if startswith line ''property uchar red'' then
           scan_header py_int (i + 1) ls (h\<lparr>has_colors := True\<rparr>)
         else if line = ''end_header'' then Inr (h\<lparr>header_end := i + 1\<rparr>)
         else scan_header py_int (i + 1) ls h)"

subsection \<open>The vertex records\<close>

text \<open>
  \<open>r/255.0\<close> for an integer \<open>r\<close>: Python converts \<open>r\<close> to a float first, rounding to
  the nearest, and raises \<open>OverflowError\<close> when the result is beyond the largest
  float, \<open>2^1024 - 2^971\<close>; that is when the magnitude of \<open>r\<close> reaches the midpoint
  \<open>2^1024 - 2^970\<close>. The quotient of a float by \<open>255.0\<close> never overflows. The numbers
  are reals: the rounding of the conversion and of the division is not modelled.
\<close>

definition float_int_limit :: int where
  "float_int_limit = 2 ^ 1024 - 2 ^ 970"

definition int_to_float :: "int \<Rightarrow> py_error + real" where
  "int_to_float n = (if float_int_limit \<le> \<bar>n\<bar> then Inl OverflowError else Inr (real_of_int n))"

definition int_div_float :: "int \<Rightarrow> real \<Rightarrow> py_error + real" where
  "int_div_float n d = ebind (int_to_float n) (\<lambda>x. Inr (x / d))"

text \<open>
  The body of the second loop for one record, given its fields: what it appends to
  \<open>points\<close> and \<open>colors\<close>. Python's \<open>float\<close> is a parameter as well, \<open>py_float\<close>:
  \<open>None\<close> where it raises \<open>ValueError\<close>; the infinities and the not-a-number that
  \<open>float\<close> can return are not modelled. The three channels are converted by \<open>int\<close>
  before the first of them is divided.
\<close>

definition vertex_record ::
  "(string \<Rightarrow> real option) \<Rightarrow> (string \<Rightarrow> int option) \<Rightarrow> bool \<Rightarrow> string list \<Rightarrow>
     real list list \<times> real list list \<Rightarrow> py_error + (real list list \<times> real list list)" where
  "vertex_record py_float py_int hc parts pc =
     (case pc of (points, colors) \<Rightarrow>
        if 3 \<le> length parts then
          (case py_float (parts ! 0) of None \<Rightarrow> Inl ValueError | Some x \<Rightarrow>
           case py_float (parts ! 1) of None \<Rightarrow> Inl ValueError | Some y \<Rightarrow>
           case py_float (parts ! 2) of None \<Rightarrow> Inl ValueError | Some z \<Rightarrow>
             if hc \<and> 6 \<le> length parts then
               (case py_int (parts ! 3) of None \<Rightarrow> Inl ValueError | Some r \<Rightarrow>
                case py_int (parts ! 4) of None \<Rightarrow> Inl ValueError | Some g \<Rightarrow>
                case py_int (parts ! 5) of None \<Rightarrow> Inl ValueError | Some b \<Rightarrow>
                  ebind (int_div_float r 255) (\<lambda>cr.
                  ebind (int_div_float g 255) (\<lambda>cg.
                  ebind (int_div_float b 255) (\<lambda>cb.
                    Inr (points @ [[x, y, z]], colors @ [[cr, cg, cb]])))))
             else if hc then Inr (points @ [[x, y, z]], colors @ [[1, 1, 1]])
             else Inr (points @ [[x, y, z]], colors))
        else Inr (points, colors))"

text \<open>
  The second loop, \<open>for i in range(header_end, header_end + vertex_count)\<close>, from index
  \<open>i\<close> on; \<open>stop\<close> is the end of the range. It leaves the loop at the first index
  that is not a line of the file.
\<close>

function parse_vertices ::
  "(string \<Rightarrow> real option) \<Rightarrow> (string \<Rightarrow> int option) \<Rightarrow> string list \<Rightarrow> bool \<Rightarrow> int \<Rightarrow> nat \<Rightarrow>
     real list list \<times> real list list \<Rightarrow> py_error + (real list list \<times> real list list)" where
  "parse_vertices py_float py_int lines hc stop i pc =
     (if int i < stop then
        (if length lines \<le> i then Inr pc
         else (case vertex_record py_float py_int hc (split (strip (lines ! i))) pc of
                 Inl e \<Rightarrow> Inl e
               | Inr pc' \<Rightarrow> parse_vertices py_float py_int lines hc stop (i + 1) pc'))
      else Inr pc)"
  by pat_completeness auto
termination
  by (relation "measure (\<lambda>(py_float, py_int, lines, hc, stop, i, pc). length lines - i)") auto

text \<open>\<open>np.array\<close> of a list of lists of Python floats: an array of \<open>float64\<close>.\<close>

definition np_array :: "real list list \<Rightarrow> real list ndarray" where
  "np_array rows = \<lparr>dtype = Float64, elems = rows\<rparr>"

text \<open>
  \<open>load_ply_file\<close>. \<open>open_read\<close> stands for opening the file and \<open>f.readlines()\<close>: the
  lines of the file, or the exception \<open>open\<close> raises (\<open>FileNotFoundError\<close> for a path
  that does not exist).
\<close>

definition load_ply_file ::
  "(string \<Rightarrow> real option) \<Rightarrow> (string \<Rightarrow> int option) \<Rightarrow> (string \<Rightarrow> py_error + string list) \<Rightarrow>
     string \<Rightarrow> py_error + (real list ndarray \<times> real list ndarray option)" where
  "load_ply_file py_float py_int open_read path =
     ebind (open_read path) (\<lambda>lines.
     ebind (scan_header py_int 0 lines initial_header) (\<lambda>h.
     ebind (parse_vertices py_float py_int lines (has_colors h)
              (int (header_end h) + vertex_count h) (header_end h) ([], []))
       (\<lambda>(points, colors).
          Inr (np_array points, if colors \<noteq> [] then Some (np_array colors) else None))))"

subsection \<open>Concrete number parsers for the examples\<close>

text \<open>
  Decimal integers with an optional minus sign. On every string they accept, Python's
  \<open>int\<close> returns the same integer and Python's \<open>float\<close> the same number; the examples
  use them only on such strings and on words that \<open>int\<close> and \<open>float\<close> reject too.
\<close>

definition digit_val :: "char \<Rightarrow> nat option" where
  "digit_val c = map_of
     [(CHR ''0'', 0), (CHR ''1'', 1), (CHR ''2'', 2), (CHR ''3'', 3), (CHR ''4'', 4),
      (CHR ''5'', 5), (CHR ''6'', 6), (CHR ''7'', 7), (CHR ''8'', 8), (CHR ''9'', 9)] c"

fun digits_nat :: "nat \<Rightarrow> string \<Rightarrow> nat option" where
  "digits_nat acc [] = Some acc"
| "digits_nat acc (c # cs) =
     (case digit_val c of None \<Rightarrow> None | Some d \<Rightarrow> digits_nat (10 * acc + d) cs)"

definition decimal_int :: "string \<Rightarrow> int option" where
  "decimal_int s =
     (case s of
        [] \<Rightarrow> None
      | c # cs \<Rightarrow>
          if c = CHR ''-'' then (if cs = [] then None else map_option (\<lambda>n. - int n) (digits_nat 0 cs))
          else map_option int (digits_nat 0 s))"

definition decimal_float :: "string \<Rightarrow> real option" where
  "decimal_float s = map_option real_of_int (decimal_int s)"

section \<open>Notions used to state the properties\<close>

text \<open>
  The lines the second loop of \<open>load_ply_file\<close> reads: the at most \<open>vertex_count\<close> lines
  that follow the header and exist. A line has enough fields when it has at least
  three; its fields are numeric when \<open>float\<close> accepts the first three and, in a colored
  file and for a line of at least six fields, \<open>int\<close> accepts the next three and gives
  integers that convert to a float.
\<close>

definition record_lines :: "string list \<Rightarrow> ply_header \<Rightarrow> string list" where
  "record_lines lines h = take (nat (vertex_count h)) (drop (header_end h) lines)"

definition enough_fields :: "string \<Rightarrow> bool" where
  "enough_fields l = (3 \<le> length (split (strip l)))"

definition channel_field :: "(string \<Rightarrow> int option) \<Rightarrow> string \<Rightarrow> bool" where
  "channel_field py_int s =
     (case py_int s of None \<Rightarrow> False | Some n \<Rightarrow> \<bar>n\<bar> < float_int_limit)"

definition numeric_fields ::
  "(string \<Rightarrow> real option) \<Rightarrow> (string \<Rightarrow> int option) \<Rightarrow> bool \<Rightarrow> string \<Rightarrow> bool" where
  "numeric_fields py_float py_int hc l =
     (let parts = split (strip l)
      in (3 \<le> length parts \<longrightarrow>
            py_float (parts ! 0) \<noteq> None \<and> py_float (parts ! 1) \<noteq> None \<and>
            py_float (parts ! 2) \<noteq> None) \<and>
         (hc \<and> 6 \<le> length parts \<longrightarrow>
            channel_field py_int (parts ! 3) \<and> channel_field py_int (parts ! 4) \<and>
            channel_field py_int (parts ! 5)))"

text \<open>The second loop as a recursion over the lines it reads.\<close>

fun fold_records ::
  "(string \<Rightarrow> real option) \<Rightarrow> (string \<Rightarrow> int option) \<Rightarrow> bool \<Rightarrow> string list \<Rightarrow>
     real list list \<times> real list list \<Rightarrow> py_error + (real list list \<times> real list list)" where
  "fold_records py_float py_int hc [] pc = Inr pc"
| "fold_records py_float py_int hc (l # ls) pc =
     (case vertex_record py_float py_int hc (split (strip l)) pc of
        Inl e \<Rightarrow> Inl e
      | Inr pc' \<Rightarrow> fold_records py_float py_int hc ls pc')"

text \<open>
  The color a record of at least six fields stands for, by the division the
  specification names, and the rows whose values all lie in the unit interval.
\<close>

definition color_of_record :: "(string \<Rightarrow> int option) \<Rightarrow> string \<Rightarrow> real list option" where
  "color_of_record py_int l =
     (let parts = split (strip l)
      in if 6 \<le> length parts then
           (case (py_int (parts ! 3), py_int (parts ! 4), py_int (parts ! 5)) of
              (Some r, Some g, Some b) \<Rightarrow>
                 Some [real_of_int r / 255, real_of_int g / 255, real_of_int b / 255]
            | _ \<Rightarrow> None)
         else None)"

definition in_unit_interval :: "real list \<Rightarrow> bool" where
  "in_unit_interval row = list_all (\<lambda>v. 0 \<le> v \<and> v \<le> 1) row"

text \<open>
  The color the loader gives a record it keeps in a file that declares colors: the
  normalised channels of a record of at least six fields, white for a shorter one.
\<close>

definition record_color :: "(string \<Rightarrow> int option) \<Rightarrow> string \<Rightarrow> real list" where
  "record_color py_int l =
     (case color_of_record py_int l of Some row \<Rightarrow> row | None \<Rightarrow> [1, 1, 1])"

text \<open>
  A property column of the vertex element of a file, and the raw color array: the
  stacked \<open>red\<close>, \<open>green\<close> and \<open>blue\<close> columns before any normalisation.
\<close>

definition vertex_property :: "ply_data \<Rightarrow> string \<Rightarrow> py_error + real ndarray" where
  "vertex_property plydata name =
     ebind (getitem plydata ''vertex'' KeyError) (\<lambda>vertices.
       getitem (properties vertices) name ValueError)"

definition raw_colors :: "ply_data \<Rightarrow> py_error + real list ndarray" where
  "raw_colors plydata =
     ebind (vertex_property plydata ''red'') (\<lambda>red.
     ebind (vertex_property plydata ''green'') (\<lambda>green.
     ebind (vertex_property plydata ''blue'') (\<lambda>blue.
       column_stack red green blue)))"

section \<open>Example files\<close>

text \<open>
  Three text files as \<open>readlines\<close> returns them, each line with its line feed.
  \<open>truncated.ply\<close> declares five vertices and colors; its body has three lines, one of
  two fields and one of three. \<open>bad.ply\<close> has a word where a coordinate should be.
  \<open>headerless.ply\<close> has no header at all. Every other path does not exist.
\<close>

definition with_newlines :: "string list \<Rightarrow> string list" where
  "with_newlines ls = map (\<lambda>l. l @ [CHR 0x0A]) ls"

definition truncated_lines :: "string list" where
  "truncated_lines = with_newlines
     [''ply'', ''format ascii 1.0'', ''element vertex 5'',
      ''property float x'', ''property float y'', ''property float z'',
      ''property uchar red'', ''property uchar green'', ''property uchar blue'',
      ''end_header'',
      ''0 0 0 255 0 0'', ''7 7'', ''0 1 0'']"

definition bad_lines :: "string list" where
  "bad_lines = with_newlines
     [''ply'', ''format ascii 1.0'', ''element vertex 1'',
      ''property float x'', ''property float y'', ''property float z'',
      ''end_header'',
      ''0 zero 0'']"

definition headerless_lines :: "string list" where
  "headerless_lines = with_newlines [''0 0 0'', ''1 1 1'']"


definition example_open :: "string \<Rightarrow> py_error + string list" where
  "example_open path =
     (if path = ''truncated.ply'' then Inr truncated_lines
      else if path = ''bad.ply'' then Inr bad_lines
      else if path = ''headerless.ply'' then Inr headerless_lines
      else Inl FileNotFoundError)"

text \<open>
  Two files as \<open>PlyData.read\<close> returns them, each with two vertices of \<open>float\<close>
  coordinates and \<open>uchar\<close> colors: in \<open>cloud.ply\<close> the channels go up to 255, in
  \<open>dim.ply\<close> no channel exceeds 1.
\<close>

definition cloud_ply :: ply_data where
  "cloud_ply = [(''vertex'', \<lparr>count = 2, properties =
     [(''x'', \<lparr>dtype = Float32, elems = [0, 2]\<rparr>),
      (''y'', \<lparr>dtype = Float32, elems = [1, 3]\<rparr>),
      (''z'', \<lparr>dtype = Float32, elems = [4, - 1]\<rparr>),
      (''red'', \<lparr>dtype = UInt8, elems = [255, 0]\<rparr>),
      (''green'', \<lparr>dtype = UInt8, elems = [0, 51]\<rparr>),
      (''blue'', \<lparr>dtype = UInt8, elems = [0, 102]\<rparr>)]\<rparr>)]"

definition dim_ply :: ply_data where
  "dim_ply = [(''vertex'', \<lparr>count = 2, properties =
     [(''x'', \<lparr>dtype = Float32, elems = [0, 2]\<rparr>),
      (''y'', \<lparr>dtype = Float32, elems = [1, 3]\<rparr>),
      (''z'', \<lparr>dtype = Float32, elems = [4, - 1]\<rparr>),
      (''red'', \<lparr>dtype = UInt8, elems = [1, 0]\<rparr>),
      (''green'', \<lparr>dtype = UInt8, elems = [0, 1]\<rparr>),
      (''blue'', \<lparr>dtype = UInt8, elems = [1, 1]\<rparr>)]\<rparr>)]"

definition example_read :: "string \<Rightarrow> py_error + ply_data" where
  "example_read path =
     (if path = ''cloud.ply'' then Inr cloud_ply
      else if path = ''dim.ply'' then Inr dim_ply
      else Inl FileNotFoundError)"

definition example_stat :: "string \<Rightarrow> py_error + nat" where
  "example_stat path =
     (if path = ''cloud.ply'' \<or> path = ''dim.ply'' then Inr 512 else Inl FileNotFoundError)"

section \<open>The trajectory evaluation of the specification\<close>

text \<open>
  Modelled from the spec: the class \<open>CameraTrajectory\<close> of the sources stores a
  trajectory and has no method that evaluates it; the evaluation lives in the module
  \<open>blender_script_generator\<close>, which \<open>point_cloud_renderer.py\<close> imports and which is
  not among the sources. The data below is the \<open>TrajectorySpec\<close> and the \<open>CameraPose\<close>
  of section 3 of the specification: positions and rotations are triples, a rotation
  is (pitch, yaw, roll) in radians, a keyframe is (time, position, rotation).
\<close>

type_synonym vec3 = "real \<times> real \<times> real"

datatype trajectory_spec =
    Linear vec3 vec3 "vec3 option" "vec3 option"
  | Circular vec3 real real real real vec3
  | Custom "(real \<times> vec3 \<times> vec3) list"

record camera_pose =
  position :: vec3
  orientation :: vec3

record trajectory_evaluator =
  spec :: "trajectory_spec option"

text \<open>
  Modelled from the spec: the evaluator before any \<open>set\<close>, and \<open>set(spec)\<close> of section
  4.2, which is missing from the sources with the evaluation.
\<close>

definition new_evaluator :: trajectory_evaluator where
  "new_evaluator = \<lparr>spec = None\<rparr>"

definition set_spec :: "trajectory_evaluator \<Rightarrow> trajectory_spec \<Rightarrow> trajectory_evaluator" where
  "set_spec e s = e\<lparr>spec := Some s\<rparr>"

text \<open>
  Modelled from the spec: component-wise linear interpolation, the two-argument
  arctangent and the look-at rule of section 4.2 (yaw from the horizontal offset, pitch
  from the vertical offset over the horizontal distance, roll 0); none of them is in
  the sources.
\<close>

definition lerp3 :: "vec3 \<Rightarrow> vec3 \<Rightarrow> real \<Rightarrow> vec3" where
  "lerp3 a b t =
     (case a of (ax, ay, az) \<Rightarrow> case b of (bx, by, bz) \<Rightarrow>
        (ax + t * (bx - ax), ay + t * (by - ay), az + t * (bz - az)))"

definition atan2 :: "real \<Rightarrow> real \<Rightarrow> real" where
  "atan2 y x =
     (if 0 < x then arctan (y / x)
      else if x < 0 \<and> 0 \<le> y then arctan (y / x) + pi
      else if x < 0 then arctan (y / x) - pi
      else if 0 < y then pi / 2
      else if y < 0 then - pi / 2
      else 0)"

definition look_at_rotation :: "vec3 \<Rightarrow> vec3 \<Rightarrow> vec3" where
  "look_at_rotation p t =
     (case p of (px, py, pz) \<Rightarrow> case t of (tx, ty, tz) \<Rightarrow>
        (atan2 (tz - pz) (sqrt ((tx - px)\<^sup>2 + (ty - py)\<^sup>2)), atan2 (ty - py) (tx - px), 0))"

text \<open>
  Modelled from the spec: the custom trajectory of section 4.2, missing from the
  sources. The keyframes are sorted by time; the progress is clamped to the first and
  the last keyframe and interpolated between the two that bracket it.
\<close>

fun between_keyframes :: "real \<Rightarrow> (real \<times> vec3 \<times> vec3) list \<Rightarrow> py_error + camera_pose" where
  "between_keyframes p [] = Inl InvalidTrajectoryError"
| "between_keyframes p [(t, pos, rot)] = Inr \<lparr>position = pos, orientation = rot\<rparr>"
| "between_keyframes p ((t1, pos1, rot1) # (t2, pos2, rot2) # ks) =
     (if p \<le> t1 then Inr \<lparr>position = pos1, orientation = rot1\<rparr>
      else if p \<le> t2 then
        Inr \<lparr>position = lerp3 pos1 pos2 ((p - t1) / (t2 - t1)),
             orientation = lerp3 rot1 rot2 ((p - t1) / (t2 - t1))\<rparr>
      else between_keyframes p ((t2, pos2, rot2) # ks))"

text \<open>
  Modelled from the spec: \<open>evaluate(progress)\<close> of section 4.2, the method the sources
  do not have. It fails with \<open>InvalidTrajectoryError\<close> when no spec has been set or the
  progress is outside [0, 1]. For a linear trajectory the look-at target wins over the
  fixed rotation, and a trajectory with neither is a missing configuration; a circular
  trajectory turns in the x-y plane, with the height along z.
\<close>

definition evaluate :: "trajectory_evaluator \<Rightarrow> real \<Rightarrow> py_error + camera_pose" where
  "evaluate e progress =
     (case spec e of
        None \<Rightarrow> Inl InvalidTrajectoryError
      | Some s \<Rightarrow>
          if progress < 0 \<or> 1 < progress then Inl InvalidTrajectoryError
          else
            (case s of
               Linear start_pos end_pos look_at fixed_rotation \<Rightarrow>
                 (let pos = lerp3 start_pos end_pos progress
                  in case look_at of
                       Some target \<Rightarrow>
                         Inr \<lparr>position = pos, orientation = look_at_rotation pos target\<rparr>
                     | None \<Rightarrow>
                         (case fixed_rotation of
                            Some rot \<Rightarrow> Inr \<lparr>position = pos, orientation = rot\<rparr>
                          | None \<Rightarrow> Inl InvalidTrajectoryError))
             | Circular center radius height start_angle end_angle look_at \<Rightarrow>
                 (let angle = start_angle + progress * (end_angle - start_angle);
                      pos = (case center of (cx, cy, cz) \<Rightarrow>
                               (cx + radius * cos angle, cy + radius * sin angle, cz + height))
                  in Inr \<lparr>position = pos, orientation = look_at_rotation pos look_at\<rparr>)
             | Custom keyframes \<Rightarrow> between_keyframes progress (sort_key fst keyframes)))"

section \<open>Properties of the camera trajectory\<close>

text \<open>
  C8. For every triple (pitch, yaw, roll), \<open>euler_to_rotation_matrix\<close> is the product
  Rz(roll) . Ry(yaw) . Rx(pitch) of the standard right-handed axis rotations: pitch
  about X is applied first, then yaw about Y, then roll about Z.
\<close>

theorem euler_to_rotation_matrix_is_Rz_Ry_Rx:
  "euler_to_rotation_matrix (pitch, yaw, roll) = spec_rotation pitch yaw roll"
  by (simp add: euler_to_rotation_matrix_def spec_rotation_def mat_of_entries_def
      mat_entry_def matmul_def dot3_def col3_def rot_x_def rot_y_def rot_z_def
      lessThan_Suc numeral_3_eq_3 algebra_simps)

text \<open>
  C9, as the code has it. After a call of \<open>set_trajectory\<close> with one of the three known
  names, exactly that name is the active type and \<open>get_info\<close> shows every parameter of
  that variant; a keyword argument that is not a parameter of the variant is not stored.
  The dictionary is updated, never replaced: an entry stored by an earlier call under a
  key that the new variant does not have stays where it was, so the parameters shown
  are the union of what was there before and the variant's own.
\<close>

theorem set_trajectory_accumulates:
  assumes "ttype \<in> known_types"
  shows "fst (set_trajectory self ttype kwargs) = None \<and>
     info_type (get_info (snd (set_trajectory self ttype kwargs))) = Some ttype \<and>
     dom (info_parameters (get_info (snd (set_trajectory self ttype kwargs))))
       = dom (trajectory_params self) \<union> variant_keys ttype \<and>
     (\<forall>k. k \<notin> variant_keys ttype \<longrightarrow>
        info_parameters (get_info (snd (set_trajectory self ttype kwargs))) k
          = trajectory_params self k) \<and>
     (\<forall>k v. k \<in> variant_keys ttype \<longrightarrow> kwargs k = Some v \<longrightarrow> truthy v \<longrightarrow>
        info_parameters (get_info (snd (set_trajectory self ttype kwargs))) k = Some v)"
  using assms
  by (auto simp add: set_trajectory_def known_types_def get_info_def variant_keys_def
      setup_linear_trajectory_def setup_circular_trajectory_def setup_custom_trajectory_def
      Let_def kwarg_def py_or_def)

theorem set_trajectory_accumulates_witness:
  "''circular'' \<in> known_types \<and>
   ''start_pos'' \<notin> variant_keys ''circular'' \<and>
   ''radius'' \<in> variant_keys ''circular'' \<and>
   [''radius'' \<mapsto> PFloat 3, ''speed'' \<mapsto> PInt 1] ''radius'' = Some (PFloat 3) \<and>
   truthy (PFloat 3) \<and>
   fst (set_trajectory (snd (set_trajectory init_trajectory ''linear'' Map.empty)) ''circular''
          [''radius'' \<mapsto> PFloat 3, ''speed'' \<mapsto> PInt 1]) = None \<and>
   info_type (get_info (snd (set_trajectory
          (snd (set_trajectory init_trajectory ''linear'' Map.empty)) ''circular''
          [''radius'' \<mapsto> PFloat 3, ''speed'' \<mapsto> PInt 1]))) = Some ''circular'' \<and>
   info_parameters (get_info (snd (set_trajectory
          (snd (set_trajectory init_trajectory ''linear'' Map.empty)) ''circular''
          [''radius'' \<mapsto> PFloat 3, ''speed'' \<mapsto> PInt 1]))) ''start_pos''
     = trajectory_params (snd (set_trajectory init_trajectory ''linear'' Map.empty)) ''start_pos'' \<and>
   info_parameters (get_info (snd (set_trajectory
          (snd (set_trajectory init_trajectory ''linear'' Map.empty)) ''circular''
          [''radius'' \<mapsto> PFloat 3, ''speed'' \<mapsto> PInt 1]))) ''radius'' = Some (PFloat 3)"
proof -
  have known: "''circular'' \<in> known_types"
    by (simp add: known_types_def)
  have other: "''start_pos'' \<notin> variant_keys ''circular''"
    by (simp add: variant_keys_def)
  have own: "''radius'' \<in> variant_keys ''circular''"
    by (simp add: variant_keys_def)
  have passed: "[''radius'' \<mapsto> PFloat 3, ''speed'' \<mapsto> PInt 1] ''radius'' = Some (PFloat 3)"
    by simp
  show ?thesis
    using set_trajectory_accumulates [OF known,
        of "snd (set_trajectory init_trajectory ''linear'' Map.empty)"
           "[''radius'' \<mapsto> PFloat 3, ''speed'' \<mapsto> PInt 1]"]
      known other own passed
    by simp
qed

text \<open>
  C9 as the specification states it fails: after \<open>linear\<close> and then \<open>circular\<close> on a fresh
  object, with no keyword argument at all, \<open>get_info\<close> still shows \<open>start_pos\<close>, which is not
  a parameter of the circular variant.
\<close>

theorem set_trajectory_only_active_params_counterexample:
  "info_parameters (get_info (snd (set_trajectory
        (snd (set_trajectory init_trajectory ''linear'' Map.empty)) ''circular'' Map.empty)))
      ''start_pos'' = Some (PTuple [PInt 0, PInt 0, PInt 5]) \<and>
   ''start_pos'' \<notin> variant_keys ''circular'' \<and>
   info_parameters (get_info (snd (set_trajectory init_trajectory ''circular'' Map.empty)))
      ''start_pos'' = None"
  by (simp add: set_trajectory_def get_info_def init_trajectory_def variant_keys_def
      setup_linear_trajectory_def setup_circular_trajectory_def kwarg_def py_or_def Let_def)

text \<open>
  C10. For every name other than \<open>linear\<close>, \<open>circular\<close> and \<open>custom\<close>, \<open>set_trajectory\<close>
  raises \<open>ValueError\<close> after it has stored the name: the object it leaves has the unknown
  name as its \<open>trajectory_type\<close> and the parameters it had before the call.
\<close>

theorem set_trajectory_unknown_type:
  assumes "ttype \<notin> known_types"
  shows "set_trajectory self ttype kwargs
           = (Some ValueError, self\<lparr>trajectory_type := Some ttype\<rparr>) \<and>
         trajectory_type (snd (set_trajectory self ttype kwargs)) = Some ttype \<and>
         trajectory_params (snd (set_trajectory self ttype kwargs)) = trajectory_params self"
  using assms by (simp add: set_trajectory_def known_types_def)

theorem set_trajectory_unknown_type_witness:
  "''spiral'' \<notin> known_types \<and>
   fst (set_trajectory (snd (set_trajectory init_trajectory ''linear'' Map.empty)) ''spiral''
          [''radius'' \<mapsto> PFloat 3]) = Some ValueError \<and>
   trajectory_type (snd (set_trajectory
          (snd (set_trajectory init_trajectory ''linear'' Map.empty)) ''spiral''
          [''radius'' \<mapsto> PFloat 3])) = Some ''spiral'' \<and>
   trajectory_params (snd (set_trajectory
          (snd (set_trajectory init_trajectory ''linear'' Map.empty)) ''spiral''
          [''radius'' \<mapsto> PFloat 3])) ''radius'' = None \<and>
   trajectory_params (snd (set_trajectory
          (snd (set_trajectory init_trajectory ''linear'' Map.empty)) ''spiral''
          [''radius'' \<mapsto> PFloat 3])) ''end_pos'' = Some (PTuple [PInt 5, PInt 0, PInt 5])"
proof -
  have unknown: "''spiral'' \<notin> known_types"
    by (simp add: known_types_def)
  have before: "trajectory_params (snd (set_trajectory init_trajectory ''linear'' Map.empty))
      = [''start_pos'' \<mapsto> PTuple [PInt 0, PInt 0, PInt 5],
         ''end_pos'' \<mapsto> PTuple [PInt 5, PInt 0, PInt 5],
         ''look_at'' \<mapsto> PNone, ''fixed_rotation'' \<mapsto> PNone]"
    by (simp add: set_trajectory_def init_trajectory_def setup_linear_trajectory_def
        kwarg_def Let_def)
  show ?thesis
    using set_trajectory_unknown_type [OF unknown,
        of "snd (set_trajectory init_trajectory ''linear'' Map.empty)" "[''radius'' \<mapsto> PFloat 3]"]
      unknown before
    by simp
qed

section \<open>Properties of the PLY processor\<close>

lemma ebind_eq_Inr: "ebind m f = Inr v \<longleftrightarrow> (\<exists>a. m = Inr a \<and> f a = Inr v)"
  by (cases m) (simp_all add: ebind_def)

lemma ebind_Inl: "ebind (Inl e) f = Inl e"
  by (simp add: ebind_def)

lemma ebind_Inr: "ebind (Inr a) f = f a"
  by (simp add: ebind_def)

lemma column_stack_columns:
  assumes "column_stack a b c = Inr pts"
  shows "column 0 pts = elems a" and "column 1 pts = elems b" and "column 2 pts = elems c"
proof -
  from assms have len: "length (elems a) = length (elems b)" "length (elems b) = length (elems c)"
    and pts: "elems pts = map (\<lambda>(x, y, z). [x, y, z]) (zip (elems a) (zip (elems b) (elems c)))"
    by (auto simp add: column_stack_def split: if_splits)
  have "map (\<lambda>row. row ! 0) (elems pts) = map fst (zip (elems a) (zip (elems b) (elems c)))"
    unfolding pts by (simp add: case_prod_unfold comp_def)
  also have "\<dots> = elems a"
    using len by simp
  finally show "column 0 pts = elems a"
    by (simp add: column_def)
  have "map (\<lambda>row. row ! 1) (elems pts)
          = map fst (map snd (zip (elems a) (zip (elems b) (elems c))))"
    unfolding pts by (simp add: case_prod_unfold comp_def)
  also have "\<dots> = elems b"
    using len by simp
  finally show "column 1 pts = elems b"
    by (simp add: column_def)
  have "map (\<lambda>row. row ! 2) (elems pts)
          = map snd (map snd (zip (elems a) (zip (elems b) (elems c))))"
    unfolding pts by (simp add: case_prod_unfold comp_def)
  also have "\<dots> = elems c"
    using len by simp
  finally show "column 2 pts = elems c"
    by (simp add: column_def)
qed

lemma load_ply_try_points:
  assumes "load_ply_try read path = Inr (points, colors)"
  shows "\<exists>plydata vertices x y z.
           read path = Inr plydata \<and> getitem plydata ''vertex'' KeyError = Inr vertices \<and>
           getitem (properties vertices) ''x'' ValueError = Inr x \<and>
           getitem (properties vertices) ''y'' ValueError = Inr y \<and>
           getitem (properties vertices) ''z'' ValueError = Inr z \<and>
           column_stack x y z = Inr points"
  using assms unfolding load_ply_try_def
  by (auto simp add: ebind_eq_Inr Let_def split: if_splits)

text \<open>
  C7. For every file that \<open>load_ply\<close> loads and for which \<open>get_ply_info\<close> does not fall
  back to the empty record, the bounds \<open>get_ply_info\<close> reports (minimum, maximum and
  mean of each axis) are the bounds computed from the position array \<open>load_ply\<close>
  returns. The numbers are reals: the equality is exact, rounding is not modelled.
\<close>

theorem get_ply_info_bounds_match_load_ply:
  assumes "load_ply read path = (log1, Inr (Some points, colors))"
    and "get_ply_info read stat_size path = ([], Inr info)"
  shows "bounds_of_points points = Inr (bounds info)"
proof -
  from assms(1) have "load_ply_try read path = Inr (points, colors)"
    by (auto simp add: load_ply_def split: sum.splits)
  from load_ply_try_points [OF this] obtain plydata vertices x y z where
    rd: "read path = Inr plydata" and vx: "getitem plydata ''vertex'' KeyError = Inr vertices"
    and x: "getitem (properties vertices) ''x'' ValueError = Inr x"
    and y: "getitem (properties vertices) ''y'' ValueError = Inr y"
    and z: "getitem (properties vertices) ''z'' ValueError = Inr z"
    and st: "column_stack x y z = Inr points"
    by blast
  from assms(2) have "get_ply_info_try read stat_size path = Inr info"
    by (auto simp add: get_ply_info_def split: sum.splits)
  then obtain min_x max_x min_y max_y min_z max_z where
    mm: "amin (elems x) = Inr min_x" "amax (elems x) = Inr max_x"
        "amin (elems y) = Inr min_y" "amax (elems y) = Inr max_y"
        "amin (elems z) = Inr min_z" "amax (elems z) = Inr max_z"
    and b: "bounds info = [(''min_x'', min_x), (''max_x'', max_x),
                   (''min_y'', min_y), (''max_y'', max_y),
                   (''min_z'', min_z), (''max_z'', max_z),
                   (''center_x'', mean (elems x)),
                   (''center_y'', mean (elems y)),
                   (''center_z'', mean (elems z))]"
    unfolding get_ply_info_try_def
    by (auto simp add: ebind_eq_Inr Let_def rd vx x y z)
  show ?thesis
    unfolding bounds_of_points_def column_stack_columns [OF st]
    by (simp add: mm b ebind_Inr)
qed

theorem get_ply_info_bounds_match_load_ply_witness:
  "load_ply example_read ''cloud.ply''
     = ([], Inr (Some \<lparr>dtype = Float32, elems = [[0, 1, 4], [2, 3, - 1]]\<rparr>,
                 Some \<lparr>dtype = Float32, elems = [[1, 0, 0], [0, 1 / 5, 2 / 5]]\<rparr>)) \<and>
   fst (get_ply_info example_read example_stat ''cloud.ply'') = [] \<and>
   bounds_of_points \<lparr>dtype = Float32, elems = [[0, 1, 4], [2, 3, - 1]]\<rparr>
     = Inr [(''min_x'', 0), (''max_x'', 2), (''min_y'', 1), (''max_y'', 3),
            (''min_z'', - 1), (''max_z'', 4),
            (''center_x'', 1), (''center_y'', 2), (''center_z'', 3 / 2)]"
proof -
  have loaded: "load_ply example_read ''cloud.ply''
     = ([], Inr (Some \<lparr>dtype = Float32, elems = [[0, 1, 4], [2, 3, - 1]]\<rparr>,
                 Some \<lparr>dtype = Float32, elems = [[1, 0, 0], [0, 1 / 5, 2 / 5]]\<rparr>))"
    by (simp add: load_ply_def load_ply_try_def example_read_def cloud_ply_def ebind_def
        getitem_def column_stack_def promote_types_def amax_def astype_def divide_by_def)
  have info: "get_ply_info example_read example_stat ''cloud.ply''
     = ([], Inr \<lparr>file_path = ''cloud.ply'', file_size = 512, point_count = 2,
                   info_has_colors = True, has_alpha = False,
                   info_properties = [''x'', ''y'', ''z'', ''red'', ''green'', ''blue''],
                   bounds = [(''min_x'', 0), (''max_x'', 2), (''min_y'', 1), (''max_y'', 3),
                             (''min_z'', - 1), (''max_z'', 4),
                             (''center_x'', 1), (''center_y'', 2), (''center_z'', 3 / 2)]\<rparr>)"
    by (simp add: get_ply_info_def get_ply_info_try_def example_read_def example_stat_def
        cloud_ply_def ebind_def getitem_def amax_def amin_def mean_def)
  show ?thesis
    using get_ply_info_bounds_match_load_ply [OF loaded info] loaded info
    by simp
qed

text \<open>
  C6. \<open>get_ply_info\<close> never raises. Whatever fails inside it (reading a file that does
  not exist, cannot be read or cannot be parsed, a missing vertex element or
  coordinate, the size of the file), it logs the error and returns the record with
  zero points, zero size, no colors, no properties and no bounds.
\<close>

theorem get_ply_info_never_raises:
  "(\<exists>log info. get_ply_info read stat_size path = (log, Inr info)) \<and>
   (\<forall>e. get_ply_info_try read stat_size path = Inl e \<longrightarrow>
        get_ply_info read stat_size path
          = ([LogError ''Error getting PLY info for '' path e], Inr (empty_info path))) \<and>
   (\<forall>e. read path = Inl e \<longrightarrow> get_ply_info_try read stat_size path = Inl e) \<and>
   file_size (empty_info path) = 0 \<and> point_count (empty_info path) = 0 \<and>
   \<not> info_has_colors (empty_info path) \<and> info_properties (empty_info path) = [] \<and>
   bounds (empty_info path) = []"
  by (auto simp add: get_ply_info_def get_ply_info_try_def empty_info_def ebind_Inl
      split: sum.splits)

theorem get_ply_info_never_raises_witness:
  "example_read ''missing.ply'' = Inl FileNotFoundError \<and>
   get_ply_info_try example_read example_stat ''missing.ply'' = Inl FileNotFoundError \<and>
   get_ply_info example_read example_stat ''missing.ply''
     = ([LogError ''Error getting PLY info for '' ''missing.ply'' FileNotFoundError],
        Inr \<lparr>file_path = ''missing.ply'', file_size = 0, point_count = 0,
              info_has_colors = False, has_alpha = False, info_properties = [],
              bounds = []\<rparr>)"
proof -
  have missing: "example_read ''missing.ply'' = Inl FileNotFoundError"
    by (simp add: example_read_def)
  show ?thesis
    using get_ply_info_never_raises [of example_read example_stat "''missing.ply''"] missing
    by (simp add: empty_info_def)
qed

section \<open>Properties of the script's loader\<close>

declare parse_vertices.simps [simp del]





lemma channels_value:
  "ebind (int_div_float r 255) (\<lambda>cr.
   ebind (int_div_float g 255) (\<lambda>cg.
   ebind (int_div_float b 255) (\<lambda>cb. Inr (f cr cg cb)))) = Inr v \<longleftrightarrow>
   \<bar>r\<bar> < float_int_limit \<and> \<bar>g\<bar> < float_int_limit \<and> \<bar>b\<bar> < float_int_limit \<and>
   v = f (real_of_int r / 255) (real_of_int g / 255) (real_of_int b / 255)"
  by (auto simp add: int_div_float_def int_to_float_def ebind_def)


lemma parse_vertices_fold:
  "parse_vertices py_float py_int lines hc stop i pc
     = fold_records py_float py_int hc (take (nat (stop - int i)) (drop i lines)) pc"
proof (induction py_float py_int lines hc stop i pc rule: parse_vertices.induct)
  case (1 py_float py_int lines hc stop i pc)
  show ?case
  proof (cases "int i < stop \<and> i < length lines")
    case False
    then show ?thesis
      by (subst parse_vertices.simps) auto
  next
    case True
    then have d: "drop i lines = lines ! i # drop (Suc i) lines"
      by (simp add: Cons_nth_drop_Suc)
    from True have n: "nat (stop - int i) = Suc (nat (stop - int (i + 1)))"
      by linarith
    show ?thesis
    proof (cases "vertex_record py_float py_int hc (split (strip (lines ! i))) pc")
      case (Inl e)
      with True show ?thesis
        by (subst parse_vertices.simps) (simp add: d n del: nat_diff_distrib)
    next
      case (Inr pc')
      with True "1.IH" [of pc'] show ?thesis
        by (subst parse_vertices.simps) (simp add: d n)
    qed
  qed
qed


lemma vertex_record_cases:
  assumes "vertex_record py_float py_int hc parts (P, C) = Inr (P', C')"
  shows "(length parts < 3 \<and> P' = P \<and> C' = C) \<or>
         (3 \<le> length parts \<and> (\<exists>x y z. P' = P @ [[x, y, z]]) \<and>
          (if hc \<and> 6 \<le> length parts
           then \<exists>r g b. py_int (parts ! 3) = Some r \<and> py_int (parts ! 4) = Some g \<and>
                  py_int (parts ! 5) = Some b \<and>
                  C' = C @ [[real_of_int r / 255, real_of_int g / 255, real_of_int b / 255]]
           else if hc then C' = C @ [[1, 1, 1]] else C' = C))"
proof (cases "3 \<le> length parts")
  case False
  with assms show ?thesis
    by (simp add: vertex_record_def)
next
  case True
  show ?thesis
  proof (cases "hc \<and> 6 \<le> length parts")
    case long: True
    with True assms show ?thesis
      by (auto simp add: vertex_record_def channels_value split: option.splits)
  next
    case short: False
    with True assms show ?thesis
      by (auto simp add: vertex_record_def split: option.splits if_splits)
  qed
qed

lemma vertex_record_numeric:
  assumes "numeric_fields py_float py_int hc l"
  shows "\<exists>P' C'. vertex_record py_float py_int hc (split (strip l)) (P, C) = Inr (P', C') \<and>
           length P' = length P + (if enough_fields l then 1 else 0) \<and>
           (hc \<longrightarrow> length C' = length C + (if enough_fields l then 1 else 0)) \<and>
           (\<not> hc \<longrightarrow> C' = C)"
proof (cases "3 \<le> length (split (strip l))")
  case False
  then show ?thesis
    by (simp add: vertex_record_def enough_fields_def)
next
  case True
  with assms obtain x y z where xyz: "py_float (split (strip l) ! 0) = Some x"
      "py_float (split (strip l) ! 1) = Some y" "py_float (split (strip l) ! 2) = Some z"
    by (auto simp add: numeric_fields_def Let_def)
  show ?thesis
  proof (cases "hc \<and> 6 \<le> length (split (strip l))")
    case long: True
    with assms obtain r g b where rgb: "py_int (split (strip l) ! 3) = Some r"
        "py_int (split (strip l) ! 4) = Some g" "py_int (split (strip l) ! 5) = Some b"
      and small: "\<bar>r\<bar> < float_int_limit" "\<bar>g\<bar> < float_int_limit" "\<bar>b\<bar> < float_int_limit"
      by (auto simp add: numeric_fields_def channel_field_def Let_def split: option.splits)
    from True long xyz rgb small show ?thesis
      by (simp add: vertex_record_def enough_fields_def channels_value)
  next
    case short: False
    with True xyz show ?thesis
      by (simp add: vertex_record_def enough_fields_def)
  qed
qed

lemma fold_records_numeric:
  assumes "\<forall>l\<in>set ls. numeric_fields py_float py_int hc l"
  shows "\<exists>P' C'. fold_records py_float py_int hc ls (P, C) = Inr (P', C') \<and>
           length P' = length P + length (filter enough_fields ls) \<and>
           (hc \<longrightarrow> length C' = length C + length (filter enough_fields ls)) \<and>
           (\<not> hc \<longrightarrow> C' = C)"
  using assms
proof (induction ls arbitrary: P C)
  case Nil
  then show ?case by simp
next
  case (Cons l ls)
  then have "numeric_fields py_float py_int hc l"
    by simp
  from vertex_record_numeric [OF this, of P C] obtain P1 C1 where
    step: "vertex_record py_float py_int hc (split (strip l)) (P, C) = Inr (P1, C1)"
    and lp: "length P1 = length P + (if enough_fields l then 1 else 0)"
    and lc: "hc \<longrightarrow> length C1 = length C + (if enough_fields l then 1 else 0)"
    and nc: "\<not> hc \<longrightarrow> C1 = C"
    by blast
  from Cons have "\<forall>l\<in>set ls. numeric_fields py_float py_int hc l"
    by simp
  from Cons.IH [OF this, of P1 C1] obtain P' C' where
    rest: "fold_records py_float py_int hc ls (P1, C1) = Inr (P', C')"
    and lp': "length P' = length P1 + length (filter enough_fields ls)"
    and lc': "hc \<longrightarrow> length C' = length C1 + length (filter enough_fields ls)"
    and nc': "\<not> hc \<longrightarrow> C' = C1"
    by blast
  have "fold_records py_float py_int hc (l # ls) (P, C) = Inr (P', C')"
    using step rest by simp
  moreover have "length P' = length P + length (filter enough_fields (l # ls))"
    using lp lp' by simp
  moreover have "hc \<longrightarrow> length C' = length C + length (filter enough_fields (l # ls))"
    using lc lc' by simp
  moreover have "\<not> hc \<longrightarrow> C' = C"
    using nc nc' by simp
  ultimately show ?case
    by blast
qed

lemma load_ply_file_fold:
  assumes "open_read path = Inr lines"
    and "scan_header py_int 0 lines initial_header = Inr h"
  shows "load_ply_file py_float py_int open_read path =
     ebind (fold_records py_float py_int (has_colors h) (record_lines lines h) ([], []))
       (\<lambda>(points, colors).
          Inr (np_array points, if colors \<noteq> [] then Some (np_array colors) else None))"
  using assms
  by (simp add: load_ply_file_def ebind_def parse_vertices_fold record_lines_def)

text \<open>
  C2, as the code has it. The script's loader never compares the declared vertex count
  with the body. For every file whose header it can scan and whose records have
  numeric fields (coordinates that \<open>float\<close> accepts and, in a colored file, channels
  that \<open>int\<close> accepts and that are small enough to convert to a float), it returns
  without an error: one point for each of the at most
  \<open>vertex_count\<close> lines after the header that exist and have three fields or more, so a
  truncated body or a short record gives a shorter point cloud. In a file that declares
  colors every point gets a color.
\<close>

theorem load_ply_file_returns_readable_records:
  assumes "open_read path = Inr lines"
    and "scan_header py_int 0 lines initial_header = Inr h"
    and "\<forall>l\<in>set (record_lines lines h). numeric_fields py_float py_int (has_colors h) l"
  shows "\<exists>points colors.
      load_ply_file py_float py_int open_read path = Inr (points, colors) \<and>
      length (elems points) = length (filter enough_fields (record_lines lines h)) \<and>
      (case colors of
         None \<Rightarrow> has_colors h \<longrightarrow> elems points = []
       | Some c \<Rightarrow> has_colors h \<and> length (elems c) = length (elems points))"
proof -
  from fold_records_numeric [OF assms(3), of "[]" "[]"] obtain P C where
    run: "fold_records py_float py_int (has_colors h) (record_lines lines h) ([], []) = Inr (P, C)"
    and lp: "length P = length (filter enough_fields (record_lines lines h))"
    and lc: "has_colors h \<longrightarrow> length C = length (filter enough_fields (record_lines lines h))"
    and nc: "\<not> has_colors h \<longrightarrow> C = []"
    by auto
  have res: "load_ply_file py_float py_int open_read path
      = Inr (np_array P, if C \<noteq> [] then Some (np_array C) else None)"
    using load_ply_file_fold [of open_read path lines py_int h py_float] assms(1,2) run
    by (simp add: ebind_def)
  show ?thesis
  proof (cases "C = []")
    case True
    with res lp lc show ?thesis
      by (auto simp add: np_array_def)
  next
    case False
    with res lp lc nc show ?thesis
      by (auto simp add: np_array_def)
  qed
qed

lemma truncated_header:
  "scan_header decimal_int 0 truncated_lines initial_header
     = Inr \<lparr>header_end = 10, vertex_count = 5, has_colors = True\<rparr>"
  by (simp add: truncated_lines_def with_newlines_def initial_header_def strip_def split_def
      is_space_def startswith_def decimal_int_def digit_val_def)

lemma truncated_records:
  "record_lines truncated_lines \<lparr>header_end = 10, vertex_count = 5, has_colors = True\<rparr>
     = with_newlines [''0 0 0 255 0 0'', ''7 7'', ''0 1 0'']"
  by (simp add: record_lines_def truncated_lines_def with_newlines_def)

theorem load_ply_file_returns_readable_records_witness:
  "example_open ''truncated.ply'' = Inr truncated_lines \<and>
   scan_header decimal_int 0 truncated_lines initial_header
     = Inr \<lparr>header_end = 10, vertex_count = 5, has_colors = True\<rparr> \<and>
   list_all (numeric_fields decimal_float decimal_int True)
     (record_lines truncated_lines \<lparr>header_end = 10, vertex_count = 5, has_colors = True\<rparr>) \<and>
   length (filter enough_fields
     (record_lines truncated_lines \<lparr>header_end = 10, vertex_count = 5, has_colors = True\<rparr>)) = 2 \<and>
   (\<exists>points colors.
      load_ply_file decimal_float decimal_int example_open ''truncated.ply''
        = Inr (points, Some colors) \<and>
      length (elems points) = 2 \<and> length (elems colors) = 2)"
proof -
  have opened: "example_open ''truncated.ply'' = Inr truncated_lines"
    by (simp add: example_open_def)
  have numeric: "list_all (numeric_fields decimal_float decimal_int True)
     (record_lines truncated_lines \<lparr>header_end = 10, vertex_count = 5, has_colors = True\<rparr>)"
    by (simp add: truncated_records with_newlines_def numeric_fields_def channel_field_def
        float_int_limit_def strip_def split_def
        is_space_def decimal_int_def decimal_float_def digit_val_def)
  then have numeric': "\<forall>l\<in>set (record_lines truncated_lines
        \<lparr>header_end = 10, vertex_count = 5, has_colors = True\<rparr>).
      numeric_fields decimal_float decimal_int
        (has_colors \<lparr>header_end = 10, vertex_count = 5, has_colors = True\<rparr>) l"
    by (simp add: list_all_iff)
  have count: "length (filter enough_fields
     (record_lines truncated_lines \<lparr>header_end = 10, vertex_count = 5, has_colors = True\<rparr>)) = 2"
    by (simp add: truncated_records with_newlines_def enough_fields_def strip_def split_def
        is_space_def)
  from load_ply_file_returns_readable_records
    [of example_open "''truncated.ply''" truncated_lines decimal_int
        "\<lparr>header_end = 10, vertex_count = 5, has_colors = True\<rparr>" decimal_float,
     OF opened truncated_header numeric']
  obtain points colors where
    "load_ply_file decimal_float decimal_int example_open ''truncated.ply'' = Inr (points, colors)"
    "length (elems points) = 2"
    "case colors of None \<Rightarrow> elems points = []
       | Some c \<Rightarrow> length (elems c) = length (elems points)"
    unfolding count by (auto split: option.splits)
  then have "\<exists>points colors.
      load_ply_file decimal_float decimal_int example_open ''truncated.ply''
        = Inr (points, Some colors) \<and>
      length (elems points) = 2 \<and> length (elems colors) = 2"
    by (cases colors) auto
  with opened truncated_header numeric count show ?thesis
    by blast
qed

text \<open>
  C2 as the specification states it fails: \<open>truncated.ply\<close> declares five vertices and
  colors, and its body has three lines, one of them with two fields and one with three.
  The loader raises nothing and returns the two points it could read, the second one
  white.
\<close>

theorem load_ply_file_partial_cloud_counterexample:
  "load_ply_file decimal_float decimal_int example_open ''truncated.ply''
     = Inr (\<lparr>dtype = Float64, elems = [[0, 0, 0], [0, 1, 0]]\<rparr>,
            Some \<lparr>dtype = Float64, elems = [[1, 0, 0], [1, 1, 1]]\<rparr>)"
proof -
  have opened: "example_open ''truncated.ply'' = Inr truncated_lines"
    by (simp add: example_open_def)
  have body: "parse_vertices decimal_float decimal_int truncated_lines True 15 10 ([], [])
      = Inr ([[0, 0, 0], [0, 1, 0]], [[1, 0, 0], [1, 1, 1]])"
    by (simp add: parse_vertices.simps truncated_lines_def with_newlines_def vertex_record_def
        int_div_float_def int_to_float_def float_int_limit_def ebind_def strip_def split_def is_space_def decimal_int_def decimal_float_def digit_val_def)
  show ?thesis
    by (simp add: load_ply_file_def opened ebind_def truncated_header body np_array_def)
qed

section \<open>Properties of both loaders\<close>

lemma fold_records_colors_exact:
  assumes "fold_records py_float py_int hc ls (P, C) = Inr (P', C')"
  shows "C' = (if hc then C @ map (record_color py_int) (filter enough_fields ls) else C)"
  using assms
proof (induction ls arbitrary: P C)
  case Nil
  then show ?case by simp
next
  case (Cons l ls)
  from Cons.prems obtain P1 C1 where
    step: "vertex_record py_float py_int hc (split (strip l)) (P, C) = Inr (P1, C1)"
    and rest: "fold_records py_float py_int hc ls (P1, C1) = Inr (P', C')"
    by (auto split: sum.splits)
  have one: "C1 = (if hc \<and> enough_fields l then C @ [record_color py_int l] else C)"
    using vertex_record_cases [OF step]
    by (auto simp add: enough_fields_def record_color_def color_of_record_def Let_def
        split: if_splits)
  from Cons.IH [OF rest] one show ?case
    by simp
qed

lemma load_ply_try_colors:
  assumes "load_ply_try read path = Inr (points, Some c)"
    and "read path = Inr plydata"
  shows "\<exists>raw m. raw_colors plydata = Inr raw \<and> amax (concat (elems raw)) = Inr m \<and>
           c = (if 1 < m then divide_by (astype Float32 raw) 255 else raw)"
  using assms unfolding load_ply_try_def raw_colors_def vertex_property_def
  by (auto simp add: ebind_eq_Inr ebind_Inr Let_def split: if_splits)

lemma load_ply_try_positions:
  assumes "load_ply_try read path = Inr (points, colors)"
    and "read path = Inr plydata"
  shows "\<exists>x y z. vertex_property plydata ''x'' = Inr x \<and> vertex_property plydata ''y'' = Inr y \<and>
           vertex_property plydata ''z'' = Inr z \<and> column_stack x y z = Inr points"
  using load_ply_try_points [OF assms(1)] assms(2)
  by (auto simp add: vertex_property_def ebind_Inr)

lemma load_ply_result:
  "load_ply read path = (logged, Inr (Some points, colors)) \<Longrightarrow>
   load_ply_try read path = Inr (points, colors)"
  by (auto simp add: load_ply_def split: sum.splits)










text \<open>
  C4, as the code has it. The script's loader gives every record it keeps in a colored
  file the color \<open>(r/255, g/255, b/255)\<close> of its three integer channel fields when the
  record has six fields or more, and white otherwise; the normalised channels lie in
  the unit interval when the raw ones lie in 0..255. \<open>load_ply\<close> of the PLY processor
  divides the stacked color columns by 255 only when the largest raw channel of the
  whole file is greater than 1; otherwise it returns the raw values as they are.
\<close>

theorem color_normalisation_as_coded:
  "(\<forall>lines h points c.
      open_read path = Inr lines \<longrightarrow>
      scan_header py_int 0 lines initial_header = Inr h \<longrightarrow>
      load_ply_file py_float py_int open_read path = Inr (points, Some c) \<longrightarrow>
      elems c = map (record_color py_int) (filter enough_fields (record_lines lines h))) \<and>
   (\<forall>l r g b.
      6 \<le> length (split (strip l)) \<longrightarrow>
      py_int (split (strip l) ! 3) = Some r \<longrightarrow>
      py_int (split (strip l) ! 4) = Some g \<longrightarrow>
      py_int (split (strip l) ! 5) = Some b \<longrightarrow>
      record_color py_int l = [real_of_int r / 255, real_of_int g / 255, real_of_int b / 255] \<and>
      (0 \<le> r \<and> r \<le> 255 \<and> 0 \<le> g \<and> g \<le> 255 \<and> 0 \<le> b \<and> b \<le> 255 \<longrightarrow>
         in_unit_interval (record_color py_int l))) \<and>
   (\<forall>logged points c plydata.
      load_ply read path = (logged, Inr (Some points, Some c)) \<longrightarrow>
      read path = Inr plydata \<longrightarrow>
      (\<exists>raw m. raw_colors plydata = Inr raw \<and> amax (concat (elems raw)) = Inr m \<and>
         elems c = (if 1 < m then map (map (\<lambda>v. v / 255)) (elems raw) else elems raw)))"
proof (intro conjI allI impI)
  fix lines h points c
  assume opened: "open_read path = Inr lines"
    and header: "scan_header py_int 0 lines initial_header = Inr h"
    and loaded: "load_ply_file py_float py_int open_read path = Inr (points, Some c)"
  from loaded obtain P C where
    run: "fold_records py_float py_int (has_colors h) (record_lines lines h) ([], []) = Inr (P, C)"
    and c: "C \<noteq> []" "c = np_array C"
    using load_ply_file_fold [of open_read path lines py_int h py_float] opened header
    by (auto simp add: ebind_eq_Inr split: if_splits)
  from fold_records_colors_exact [OF run] c
  show "elems c = map (record_color py_int) (filter enough_fields (record_lines lines h))"
    by (auto simp add: np_array_def split: if_splits)
next
  fix l r g b
  assume "6 \<le> length (split (strip l))"
    and "py_int (split (strip l) ! 3) = Some r"
    and "py_int (split (strip l) ! 4) = Some g"
    and "py_int (split (strip l) ! 5) = Some b"
  then show "record_color py_int l
      = [real_of_int r / 255, real_of_int g / 255, real_of_int b / 255]"
    by (simp add: record_color_def color_of_record_def)
  then show "in_unit_interval (record_color py_int l)"
    if "0 \<le> r \<and> r \<le> 255 \<and> 0 \<le> g \<and> g \<le> 255 \<and> 0 \<le> b \<and> b \<le> 255"
    using that by (simp add: in_unit_interval_def)
next
  fix logged points c plydata
  assume "load_ply read path = (logged, Inr (Some points, Some c))"
    and rd: "read path = Inr plydata"
  then have "load_ply_try read path = Inr (points, Some c)"
    by (simp add: load_ply_result)
  from load_ply_try_colors [OF this rd]
  show "\<exists>raw m. raw_colors plydata = Inr raw \<and> amax (concat (elems raw)) = Inr m \<and>
         elems c = (if 1 < m then map (map (\<lambda>v. v / 255)) (elems raw) else elems raw)"
    by (auto simp add: divide_by_def astype_def)
qed

lemma cloud_loaded:
  "load_ply example_read ''cloud.ply''
     = ([], Inr (Some \<lparr>dtype = Float32, elems = [[0, 1, 4], [2, 3, - 1]]\<rparr>,
                 Some \<lparr>dtype = Float32, elems = [[1, 0, 0], [0, 1 / 5, 2 / 5]]\<rparr>))"
  by (simp add: load_ply_def load_ply_try_def example_read_def cloud_ply_def ebind_def
      getitem_def column_stack_def promote_types_def amax_def astype_def divide_by_def)

lemma cloud_raw_colors:
  "raw_colors cloud_ply = Inr \<lparr>dtype = UInt8, elems = [[255, 0, 0], [0, 51, 102]]\<rparr>"
  by (simp add: raw_colors_def vertex_property_def cloud_ply_def ebind_def getitem_def
      column_stack_def promote_types_def)

lemma truncated_loaded:
  "load_ply_file decimal_float decimal_int example_open ''truncated.ply''
     = Inr (\<lparr>dtype = Float64, elems = [[0, 0, 0], [0, 1, 0]]\<rparr>,
            Some \<lparr>dtype = Float64, elems = [[1, 0, 0], [1, 1, 1]]\<rparr>)"
proof -
  have opened: "example_open ''truncated.ply'' = Inr truncated_lines"
    by (simp add: example_open_def)
  have body: "parse_vertices decimal_float decimal_int truncated_lines True 15 10 ([], [])
      = Inr ([[0, 0, 0], [0, 1, 0]], [[1, 0, 0], [1, 1, 1]])"
    by (simp add: parse_vertices.simps truncated_lines_def with_newlines_def vertex_record_def
        int_div_float_def int_to_float_def float_int_limit_def ebind_def strip_def split_def is_space_def decimal_int_def decimal_float_def digit_val_def)
  show ?thesis
    by (simp add: load_ply_file_def opened ebind_def truncated_header body np_array_def)
qed

theorem color_normalisation_as_coded_witness:
  "example_open ''truncated.ply'' = Inr truncated_lines \<and>
   scan_header decimal_int 0 truncated_lines initial_header
     = Inr \<lparr>header_end = 10, vertex_count = 5, has_colors = True\<rparr> \<and>
   load_ply_file decimal_float decimal_int example_open ''truncated.ply''
     = Inr (\<lparr>dtype = Float64, elems = [[0, 0, 0], [0, 1, 0]]\<rparr>,
            Some \<lparr>dtype = Float64, elems = [[1, 0, 0], [1, 1, 1]]\<rparr>) \<and>
   map (record_color decimal_int) (filter enough_fields
       (record_lines truncated_lines \<lparr>header_end = 10, vertex_count = 5, has_colors = True\<rparr>))
     = [[1, 0, 0], [1, 1, 1]] \<and>
   6 \<le> length (split (strip ''0 0 0 255 0 51'')) \<and>
   decimal_int (split (strip ''0 0 0 255 0 51'') ! 3) = Some 255 \<and>
   decimal_int (split (strip ''0 0 0 255 0 51'') ! 4) = Some 0 \<and>
   decimal_int (split (strip ''0 0 0 255 0 51'') ! 5) = Some 51 \<and>
   record_color decimal_int ''0 0 0 255 0 51'' = [1, 0, 1 / 5] \<and>
   in_unit_interval (record_color decimal_int ''0 0 0 255 0 51'') \<and>
   example_read ''cloud.ply'' = Inr cloud_ply \<and>
   load_ply example_read ''cloud.ply''
     = ([], Inr (Some \<lparr>dtype = Float32, elems = [[0, 1, 4], [2, 3, - 1]]\<rparr>,
                 Some \<lparr>dtype = Float32, elems = [[1, 0, 0], [0, 1 / 5, 2 / 5]]\<rparr>)) \<and>
   raw_colors cloud_ply = Inr \<lparr>dtype = UInt8, elems = [[255, 0, 0], [0, 51, 102]]\<rparr> \<and>
   amax (concat [[255, 0, 0], [0, 51, 102]]) = Inr 255 \<and>
   (\<exists>raw m. raw_colors cloud_ply = Inr raw \<and> amax (concat (elems raw)) = Inr m \<and>
      [[1, 0, 0], [0, 1 / 5, 2 / 5]]
        = (if 1 < m then map (map (\<lambda>v. v / 255)) (elems raw) else elems raw))"
proof -
  have opened: "example_open ''truncated.ply'' = Inr truncated_lines"
    by (simp add: example_open_def)
  have fields: "split (strip ''0 0 0 255 0 51'') = [''0'', ''0'', ''0'', ''255'', ''0'', ''51'']"
    by (simp add: strip_def split_def is_space_def)
  have ints: "decimal_int ''255'' = Some 255" "decimal_int ''0'' = Some 0"
      "decimal_int ''51'' = Some 51"
    by (simp_all add: decimal_int_def digit_val_def)
  have rd: "example_read ''cloud.ply'' = Inr cloud_ply"
    by (simp add: example_read_def)
  have top: "amax (concat [[255, 0, 0], [0, 51, 102]]) = Inr 255"
    by (simp add: amax_def)
  note script = color_normalisation_as_coded [where open_read = example_open
      and path = "''truncated.ply''" and py_int = decimal_int and py_float = decimal_float
      and read = example_read]
  from script opened truncated_header truncated_loaded
  have emitted: "map (record_color decimal_int) (filter enough_fields
       (record_lines truncated_lines \<lparr>header_end = 10, vertex_count = 5, has_colors = True\<rparr>))
     = [[1, 0, 0], [1, 1, 1]]"
    by fastforce
  have f6: "6 \<le> length (split (strip ''0 0 0 255 0 51''))"
    and i3: "decimal_int (split (strip ''0 0 0 255 0 51'') ! 3) = Some 255"
    and i4: "decimal_int (split (strip ''0 0 0 255 0 51'') ! 4) = Some 0"
    and i5: "decimal_int (split (strip ''0 0 0 255 0 51'') ! 5) = Some 51"
    by (simp_all add: fields ints)
  note rec = script [THEN conjunct2, THEN conjunct1, rule_format,
      of "''0 0 0 255 0 51''" 255 0 51, OF f6 i3 i4 i5]
  from rec [THEN conjunct1]
  have one: "record_color decimal_int ''0 0 0 255 0 51'' = [1, 0, 1 / 5]"
    by simp
  from rec [THEN conjunct2]
  have unit: "in_unit_interval (record_color decimal_int ''0 0 0 255 0 51'')"
    by simp
  note processor = color_normalisation_as_coded [where open_read = example_open
      and path = "''cloud.ply''" and py_int = decimal_int and py_float = decimal_float
      and read = example_read]
  from processor cloud_loaded rd
  have divided: "\<exists>raw m. raw_colors cloud_ply = Inr raw \<and> amax (concat (elems raw)) = Inr m \<and>
      [[1, 0, 0], [0, 1 / 5, 2 / 5]]
        = (if 1 < m then map (map (\<lambda>v. v / 255)) (elems raw) else elems raw)"
    by fastforce
  show ?thesis
    using opened truncated_header truncated_loaded emitted f6 i3 i4 i5 one unit rd
      cloud_loaded cloud_raw_colors top divided
    by blast
qed

text \<open>
  C4 as the specification states it fails. In \<open>dim.ply\<close> the raw channels are 0 and 1,
  so the largest is not greater than 1 and \<open>load_ply\<close> returns them unchanged: the
  first point has the color (1, 0, 1), not (1/255, 0, 1/255).
\<close>

theorem load_ply_unnormalised_colors_counterexample:
  "load_ply example_read ''dim.ply''
     = ([], Inr (Some \<lparr>dtype = Float32, elems = [[0, 1, 4], [2, 3, - 1]]\<rparr>,
                 Some \<lparr>dtype = UInt8, elems = [[1, 0, 1], [0, 1, 1]]\<rparr>)) \<and>
   raw_colors dim_ply = Inr \<lparr>dtype = UInt8, elems = [[1, 0, 1], [0, 1, 1]]\<rparr> \<and>
   [1, 0, 1] \<noteq> [1 / 255, 0 / 255, 1 / (255 :: real)]"
  by (simp add: load_ply_def load_ply_try_def example_read_def dim_ply_def ebind_def
      getitem_def column_stack_def promote_types_def amax_def raw_colors_def
      vertex_property_def)

text \<open>
  C5, as the code has it. The script's loader returns both arrays as \<open>float64\<close>.
  \<open>load_ply\<close> of the PLY processor returns the positions in the type numpy promotes
  the \<open>x\<close>, \<open>y\<close> and \<open>z\<close> columns of the file to, and the colors as \<open>float32\<close> when it
  normalises them, in the promoted type of the raw color columns when it does not.
\<close>

theorem loader_dtypes_as_coded:
  "(\<forall>points colors.
      load_ply_file py_float py_int open_read path = Inr (points, colors) \<longrightarrow>
      dtype points = Float64 \<and> (\<forall>c. colors = Some c \<longrightarrow> dtype c = Float64)) \<and>
   (\<forall>logged points colors plydata.
      load_ply read path = (logged, Inr (Some points, colors)) \<longrightarrow>
      read path = Inr plydata \<longrightarrow>
      (\<exists>x y z. vertex_property plydata ''x'' = Inr x \<and> vertex_property plydata ''y'' = Inr y \<and>
         vertex_property plydata ''z'' = Inr z \<and>
         dtype points = promote_types (promote_types (dtype x) (dtype y)) (dtype z)) \<and>
      (\<forall>c. colors = Some c \<longrightarrow>
         (\<exists>raw m. raw_colors plydata = Inr raw \<and> amax (concat (elems raw)) = Inr m \<and>
            dtype c = (if 1 < m then Float32 else dtype raw))))"
proof (intro conjI allI impI)
  fix points colors
  assume loaded: "load_ply_file py_float py_int open_read path = Inr (points, colors)"
  then show "dtype points = Float64"
    by (auto simp add: load_ply_file_def ebind_eq_Inr np_array_def)
  fix c assume "colors = Some c"
  with loaded show "dtype c = Float64"
    by (auto simp add: load_ply_file_def ebind_eq_Inr np_array_def split: if_splits)
next
  fix logged points colors plydata
  assume "load_ply read path = (logged, Inr (Some points, colors))"
    and rd: "read path = Inr plydata"
  then have tried: "load_ply_try read path = Inr (points, colors)"
    by (simp add: load_ply_result)
  from load_ply_try_positions [OF tried rd]
  show "\<exists>x y z. vertex_property plydata ''x'' = Inr x \<and> vertex_property plydata ''y'' = Inr y \<and>
         vertex_property plydata ''z'' = Inr z \<and>
         dtype points = promote_types (promote_types (dtype x) (dtype y)) (dtype z)"
    by (auto simp add: column_stack_def split: if_splits)
  fix c assume "colors = Some c"
  with tried have "load_ply_try read path = Inr (points, Some c)"
    by simp
  from load_ply_try_colors [OF this rd]
  show "\<exists>raw m. raw_colors plydata = Inr raw \<and> amax (concat (elems raw)) = Inr m \<and>
            dtype c = (if 1 < m then Float32 else dtype raw)"
    by (auto simp add: divide_by_def astype_def)
qed

theorem loader_dtypes_as_coded_witness:
  "load_ply_file decimal_float decimal_int example_open ''truncated.ply''
     = Inr (\<lparr>dtype = Float64, elems = [[0, 0, 0], [0, 1, 0]]\<rparr>,
            Some \<lparr>dtype = Float64, elems = [[1, 0, 0], [1, 1, 1]]\<rparr>) \<and>
   example_read ''cloud.ply'' = Inr cloud_ply \<and>
   load_ply example_read ''cloud.ply''
     = ([], Inr (Some \<lparr>dtype = Float32, elems = [[0, 1, 4], [2, 3, - 1]]\<rparr>,
                 Some \<lparr>dtype = Float32, elems = [[1, 0, 0], [0, 1 / 5, 2 / 5]]\<rparr>)) \<and>
   (\<exists>x y z. vertex_property cloud_ply ''x'' = Inr x \<and> vertex_property cloud_ply ''y'' = Inr y \<and>
      vertex_property cloud_ply ''z'' = Inr z \<and>
      promote_types (promote_types (dtype x) (dtype y)) (dtype z) = Float32) \<and>
   (\<exists>raw m. raw_colors cloud_ply = Inr raw \<and> amax (concat (elems raw)) = Inr m \<and>
      (if 1 < m then Float32 else dtype raw) = Float32)"
proof -
  have rd: "example_read ''cloud.ply'' = Inr cloud_ply"
    by (simp add: example_read_def)
  note inst = loader_dtypes_as_coded [where open_read = example_open
      and path = "''cloud.ply''" and py_int = decimal_int and py_float = decimal_float
      and read = example_read]
  from inst cloud_loaded rd
  have "(\<exists>x y z. vertex_property cloud_ply ''x'' = Inr x \<and> vertex_property cloud_ply ''y'' = Inr y \<and>
      vertex_property cloud_ply ''z'' = Inr z \<and>
      promote_types (promote_types (dtype x) (dtype y)) (dtype z) = Float32) \<and>
   (\<exists>raw m. raw_colors cloud_ply = Inr raw \<and> amax (concat (elems raw)) = Inr m \<and>
      (if 1 < m then Float32 else dtype raw) = Float32)"
    by fastforce
  with truncated_loaded rd cloud_loaded show ?thesis
    by simp
qed

text \<open>
  C5 as the specification states it fails: \<open>cloud.ply\<close> has \<open>float\<close> coordinates and
  \<open>uchar\<close> colors up to 255, and \<open>load_ply\<close> returns both arrays as \<open>float32\<close>.
\<close>

theorem load_ply_float32_counterexample:
  "load_ply example_read ''cloud.ply''
     = ([], Inr (Some \<lparr>dtype = Float32, elems = [[0, 1, 4], [2, 3, - 1]]\<rparr>,
                 Some \<lparr>dtype = Float32, elems = [[1, 0, 0], [0, 1 / 5, 2 / 5]]\<rparr>)) \<and>
   Float32 \<noteq> Float64"
  by (simp add: load_ply_def load_ply_try_def example_read_def cloud_ply_def ebind_def
      getitem_def column_stack_def promote_types_def amax_def astype_def divide_by_def)

section \<open>Properties of the trajectory evaluation\<close>

text \<open>
  C3. For every progress below 0 or above 1, and whenever no trajectory spec has been
  set, \<open>evaluate\<close> fails with \<open>InvalidTrajectoryError\<close> and returns no pose.
\<close>

theorem evaluate_rejects_bad_progress:
  "(progress < 0 \<or> 1 < progress \<longrightarrow> evaluate e progress = Inl InvalidTrajectoryError) \<and>
   (spec e = None \<longrightarrow> evaluate e progress = Inl InvalidTrajectoryError)"
  by (auto simp add: evaluate_def split: option.splits)

theorem evaluate_rejects_bad_progress_witness:
  "(1 :: real) < 3 / 2 \<and> (- 1 / 10 :: real) < 0 \<and>
   spec new_evaluator = None \<and>
   evaluate (set_spec new_evaluator (Linear (0, 0, 5) (5, 0, 5) None (Some (0, 0, 0)))) (3 / 2)
     = Inl InvalidTrajectoryError \<and>
   evaluate (set_spec new_evaluator (Linear (0, 0, 5) (5, 0, 5) None (Some (0, 0, 0)))) (- 1 / 10)
     = Inl InvalidTrajectoryError \<and>
   evaluate new_evaluator (1 / 2) = Inl InvalidTrajectoryError \<and>
   evaluate (set_spec new_evaluator (Linear (0, 0, 5) (5, 0, 5) None (Some (0, 0, 0)))) (1 / 2)
     = Inr \<lparr>position = (5 / 2, 0, 5), orientation = (0, 0, 0)\<rparr>"
proof -
  have unset: "spec new_evaluator = None"
    by (simp add: new_evaluator_def)
  have inside: "evaluate (set_spec new_evaluator
        (Linear (0, 0, 5) (5, 0, 5) None (Some (0, 0, 0)))) (1 / 2)
     = Inr \<lparr>position = (5 / 2, 0, 5), orientation = (0, 0, 0)\<rparr>"
    by (simp add: evaluate_def set_spec_def new_evaluator_def lerp3_def)
  show ?thesis
    using evaluate_rejects_bad_progress
        [of "3 / 2" "set_spec new_evaluator (Linear (0, 0, 5) (5, 0, 5) None (Some (0, 0, 0)))"]
      evaluate_rejects_bad_progress
        [of "- 1 / 10" "set_spec new_evaluator (Linear (0, 0, 5) (5, 0, 5) None (Some (0, 0, 0)))"]
      evaluate_rejects_bad_progress [of "1 / 2" new_evaluator]
      unset inside
    by simp
qed

end
